theory Spec2Isabelle
  imports Complex_Main
begin

section \<open>Values\<close>

text \<open>
  The values that travel through the adapter are what Python's JSON decoder produces and
  what its encoder accepts: \<open>None\<close>, booleans, integers, floats, strings, lists and
  dictionaries with string keys. A dictionary is an association list in insertion order.
  A Python \<open>float\<close> is read as the real number it denotes: the code only passes floats
  on and tests them for truth (non-zero).
\<close>

datatype json =
    JNull
  | JBool bool
  | JInt int
  | JFloat real
  | JStr string
  | JArr "json list"
  | JObj "(string \<times> json) list"

type_synonym pydict = "(string \<times> json) list"

text \<open>Truth value of an \<open>Optional[str]\<close>: \<open>None\<close> and the empty string are false.\<close>

fun truthy :: "string option \<Rightarrow> bool" where
  "truthy None = False"
| "truthy (Some s) = (s \<noteq> [])"

text \<open>An optional argument as it appears inside a dictionary literal.\<close>

definition opt_str :: "string option \<Rightarrow> json" where
  "opt_str x = (case x of None \<Rightarrow> JNull | Some s \<Rightarrow> JStr s)"

definition opt_dict :: "pydict option \<Rightarrow> json" where
  "opt_dict x = (case x of None \<Rightarrow> JNull | Some d \<Rightarrow> JObj d)"

definition dict_list :: "pydict list \<Rightarrow> json" where
  "dict_list ds = JArr (map JObj ds)"

definition opt_dict_list :: "pydict list option \<Rightarrow> json" where
  "opt_dict_list x = (case x of None \<Rightarrow> JNull | Some ds \<Rightarrow> dict_list ds)"

text \<open>Python's \<open>str\<close> of an integer: decimal digits, with a minus sign when negative.\<close>

fun str_nat :: "nat \<Rightarrow> string" where
  "str_nat n =
     (if n < 10 then [char_of (48 + n)]
      else str_nat (n div 10) @ [char_of (48 + n mod 10)])"

definition str_int :: "int \<Rightarrow> string" where
  "str_int i = (if i < 0 then CHR ''-'' # str_nat (nat (- i)) else str_nat (nat i))"

text \<open>
  Python's \<open>str\<close> of a decoded value, as an f-string applies it. A string is itself;
  \<open>None\<close>, booleans and integers have fixed renderings; the rendering of floats and of
  containers is the interpreter's and is taken as the parameter \<open>render\<close>.
\<close>

definition py_str :: "(json \<Rightarrow> string) \<Rightarrow> json \<Rightarrow> string" where
  "py_str render v =
     (case v of
        JStr s \<Rightarrow> s
      | JNull \<Rightarrow> ''None''
      | JBool b \<Rightarrow> (if b then ''True'' else ''False'')
      | JInt i \<Rightarrow> str_int i
      | _ \<Rightarrow> render v)"

text \<open>The name Python gives the type of a decoded value.\<close>

definition type_name :: "json \<Rightarrow> string" where
  "type_name v =
     (case v of
        JNull \<Rightarrow> ''NoneType''
      | JBool _ \<Rightarrow> ''bool''
      | JInt _ \<Rightarrow> ''int''
      | JFloat _ \<Rightarrow> ''float''
      | JStr _ \<Rightarrow> ''str''
      | JArr _ \<Rightarrow> ''list''
      | JObj _ \<Rightarrow> ''dict'')"

section \<open>constants.py\<close>

definition DEFAULT_API_GATEWAY_URL :: string where
  "DEFAULT_API_GATEWAY_URL = ''https://api.finpilot.ai''"

definition LOCAL_API_GATEWAY_URL :: string where
  "LOCAL_API_GATEWAY_URL = ''http://localhost:8000''"

text \<open>The endpoint table; the keys used by the client are all present.\<close>

definition ENDPOINTS :: "(string \<times> string) list" where
  "ENDPOINTS =
     [(''credit_analyze'', ''/v1/credit/analyze''),
      (''credit_health'', ''/v1/credit/health''),
      (''portfolio_analyze'', ''/v1/portfolio/analyze''),
      (''loan_optimize'', ''/v1/loans/optimize''),
      (''financial_plan'', ''/v1/plan/create'')]"

definition endpoint :: "string \<Rightarrow> string" where
  "endpoint k = (case map_of ENDPOINTS k of Some p \<Rightarrow> p | None \<Rightarrow> [])"

section \<open>config.py\<close>

record Settings =
  api_gateway_url :: string
  api_key :: "string option"
  jwt_token :: "string option"
  environment :: string
  request_timeout :: real
  upload_timeout :: real

text \<open>The field defaults of the settings class.\<close>

definition default_settings :: Settings where
  "default_settings =
     \<lparr>api_gateway_url = DEFAULT_API_GATEWAY_URL, api_key = None, jwt_token = None,
      environment = ''production'', request_timeout = 30, upload_timeout = 120\<rparr>"

text \<open>The process environment, as \<open>os.getenv\<close> reads it.\<close>

type_synonym environ = "string \<rightharpoonup> string"

definition os_getenv :: "environ \<Rightarrow> string \<Rightarrow> string \<Rightarrow> string" where
  "os_getenv env k dflt = (case env k of Some v \<Rightarrow> v | None \<Rightarrow> dflt)"

definition is_local_dev :: "Settings \<Rightarrow> bool" where
  "is_local_dev s = (environment s = ''development'')"

definition effective_gateway_url :: "environ \<Rightarrow> Settings \<Rightarrow> string" where
  "effective_gateway_url env s =
     (if is_local_dev s then os_getenv env ''FINPILOT_API_GATEWAY_URL'' LOCAL_API_GATEWAY_URL
      else api_gateway_url s)"

definition has_auth :: "Settings \<Rightarrow> bool" where
  "has_auth s = (api_key s \<noteq> None \<or> jwt_token s \<noteq> None)"

section \<open>The HTTP library\<close>

text \<open>
  The keyword arguments of the one call \<open>client.request(...)\<close> that the shared request
  primitive makes. The header dictionary is a finite map.
\<close>

record http_request =
  req_method :: string
  req_url :: string
  req_headers :: "string \<rightharpoonup> string"
  req_json :: "json option"
  req_timeout :: real

text \<open>
  A response object: its status code, its raw content, and the outcome of calling its
  \<open>json()\<close> method, which either returns the decoded value or raises a decode error with
  a message (\<open>Inl\<close>).
\<close>

record response =
  status_code :: int
  content :: string
  response_json :: "string + json"

text \<open>
  The exception classes of the HTTP library that a request can raise. The four timeouts
  are the subclasses of its \<open>TimeoutException\<close>; everything listed except \<open>InvalidURL\<close>
  is a subclass of its \<open>RequestError\<close>.
\<close>

datatype httpx_error =
    ConnectTimeout | ReadTimeout | WriteTimeout | PoolTimeout
  | ConnectError | ReadError | WriteError | CloseError
  | LocalProtocolError | RemoteProtocolError
  | ProxyError | UnsupportedProtocol
  | DecodingError | TooManyRedirects
  | InvalidURL

fun is_TimeoutException :: "httpx_error \<Rightarrow> bool" where
  "is_TimeoutException ConnectTimeout = True"
| "is_TimeoutException ReadTimeout = True"
| "is_TimeoutException WriteTimeout = True"
| "is_TimeoutException PoolTimeout = True"
| "is_TimeoutException _ = False"

fun is_RequestError :: "httpx_error \<Rightarrow> bool" where
  "is_RequestError InvalidURL = False"
| "is_RequestError _ = True"

text \<open>What one outbound call comes to: a response, or an exception with its text.\<close>

datatype http_outcome =
    Responded response
  | Raised httpx_error string

text \<open>
  The network: how the outside answers a request, and the requests sent so far. Sending
  appends to the log and returns the outcome.
\<close>

record network =
  respond :: "http_request \<Rightarrow> http_outcome"
  sent :: "http_request list"

definition client_request :: "http_request \<Rightarrow> network \<Rightarrow> http_outcome \<times> network" where
  "client_request r net = (respond net r, net\<lparr>sent := sent net @ [r]\<rparr>)"

section \<open>client.py\<close>

text \<open>
  The exceptions that can leave the client: its own typed error (status code, message,
  details), a library exception that no handler of the request primitive matches, a JSON
  decode error, and the attribute error of calling \<open>get\<close> on a value that is not a
  dictionary. All of them are subclasses of Python's \<open>Exception\<close>.
\<close>

datatype exn =
    FinPilotAPIError int json pydict
  | HttpxError httpx_error string
  | JSONDecodeError string
  | AttributeError string

text \<open>The constructor of the typed error: \<open>details or {}\<close>.\<close>

definition FinPilotAPIError_init :: "int \<Rightarrow> json \<Rightarrow> pydict option \<Rightarrow> exn" where
  "FinPilotAPIError_init status message details =
     FinPilotAPIError status message
       (case details of None \<Rightarrow> [] | Some d \<Rightarrow> (if d = [] then [] else d))"

text \<open>
  \<open>str(e)\<close>: the typed error passes \<open>f"API Error {status_code}: {message}"\<close> to its base
  class; the other exceptions carry their text.
\<close>

fun exn_str :: "(json \<Rightarrow> string) \<Rightarrow> exn \<Rightarrow> string" where
  "exn_str render (FinPilotAPIError status message details) =
     ''API Error '' @ str_int status @ '': '' @ py_str render message"
| "exn_str render (HttpxError e msg) = msg"
| "exn_str render (JSONDecodeError msg) = msg"
| "exn_str render (AttributeError msg) = msg"

text \<open>\<open>error_data.get(key, default)\<close> on a decoded value, which need not be a dictionary.\<close>

definition py_get :: "json \<Rightarrow> string \<Rightarrow> json \<Rightarrow> exn + json" where
  "py_get v k dflt =
     (case v of
        JObj d \<Rightarrow> Inr (case map_of d k of Some x \<Rightarrow> x | None \<Rightarrow> dflt)
      | _ \<Rightarrow> Inl (AttributeError
                 ([CHR 0x27] @ type_name v @ [CHR 0x27] @ '' object has no attribute ''
                  @ [CHR 0x27] @ ''get'' @ [CHR 0x27])))"

text \<open>The client object: the three attributes its constructor copies from the settings.\<close>

record FinPilotClient =
  self_base_url :: string
  self_timeout :: real
  self_upload_timeout :: real

definition FinPilotClient_init :: "environ \<Rightarrow> Settings \<Rightarrow> FinPilotClient" where
  "FinPilotClient_init env settings =
     \<lparr>self_base_url = effective_gateway_url env settings,
      self_timeout = request_timeout settings,
      self_upload_timeout = upload_timeout settings\<rparr>"

text \<open>The headers are built from the global settings as they are at the time of the call.\<close>

definition get_headers :: "Settings \<Rightarrow> (string \<rightharpoonup> string)" where
  "get_headers settings =
     (let headers = [''Content-Type'' \<mapsto> ''application/json'',
                     ''User-Agent'' \<mapsto> ''finpilot-mcp/0.1.0'']
      in if truthy (jwt_token settings)
         then headers(''Authorization'' \<mapsto> ''Bearer '' @ the (jwt_token settings))
         else if truthy (api_key settings)
         then headers(''X-API-Key'' \<mapsto> the (api_key settings))
         else headers)"

text \<open>\<open>timeout or self.timeout\<close>: the default replaces \<open>None\<close> and also zero.\<close>

definition timeout_or :: "real option \<Rightarrow> real \<Rightarrow> real" where
  "timeout_or timeout dflt =
     (case timeout of None \<Rightarrow> dflt | Some t \<Rightarrow> (if t = 0 then dflt else t))"

text \<open>What the request primitive does with a response that arrived.\<close>

definition check_response :: "response \<Rightarrow> exn + json" where
  "check_response r =
     (if status_code r \<ge> 400 then
        (case (if content r \<noteq> [] then response_json r else Inr (JObj [])) of
           Inl msg \<Rightarrow> Inl (JSONDecodeError msg)
         | Inr error_data \<Rightarrow>
             (case py_get error_data ''message'' (JStr ''API request failed'') of
                Inl e \<Rightarrow> Inl e
              | Inr message \<Rightarrow>
                  Inl (FinPilotAPIError_init (status_code r) message
                        (case error_data of JObj d \<Rightarrow> Some d | _ \<Rightarrow> None))))
      else
        (case response_json r of
           Inl msg \<Rightarrow> Inl (JSONDecodeError msg)
         | Inr v \<Rightarrow> Inr v))"

text \<open>
  The \<open>try\<close> statement of the request primitive around the outbound call. The typed
  error and the decode errors raised inside it match neither \<open>except\<close> clause; for an
  exception of the HTTP library the two clauses are tried in the order of the source.
\<close>

definition handle_outcome :: "http_outcome \<Rightarrow> exn + json" where
  "handle_outcome outcome =
     (case outcome of
        Responded r \<Rightarrow> check_response r
      | Raised e msg \<Rightarrow>
          if is_TimeoutException e then
            Inl (FinPilotAPIError_init 504 (JStr ''Request timeout'')
                  (Some [(''error'', JStr msg)]))
          else if is_RequestError e then
            Inl (FinPilotAPIError_init 503 (JStr ''Failed to connect to API'')
                  (Some [(''error'', JStr msg)]))
          else Inl (HttpxError e msg))"

text \<open>
  The shared request primitive: it builds the URL, the headers and the effective
  timeout, makes one outbound call, and classifies its outcome.
\<close>

definition request ::
  "FinPilotClient \<Rightarrow> Settings \<Rightarrow> string \<Rightarrow> string \<Rightarrow> json option \<Rightarrow> real option
   \<Rightarrow> network \<Rightarrow> (exn + json) \<times> network" where
  "request self settings method endpoint_path body timeout net =
     (let url = self_base_url self @ endpoint_path;
          headers = get_headers settings;
          timeout_val = timeout_or timeout (self_timeout self);
          (outcome, net') =
            client_request
              \<lparr>req_method = method, req_url = url, req_headers = headers,
               req_json = body, req_timeout = timeout_val\<rparr> net
      in (handle_outcome outcome, net'))"

subsection \<open>The five operations\<close>

definition client_analyze_credit_report ::
  "FinPilotClient \<Rightarrow> Settings \<Rightarrow> string \<Rightarrow> string option \<Rightarrow> network
   \<Rightarrow> (exn + json) \<times> network" where
  "client_analyze_credit_report self settings pdf_base64 bureau =
     request self settings ''POST'' (endpoint ''credit_analyze'')
       (Some (JObj [(''pdf_base64'', JStr pdf_base64), (''bureau'', opt_str bureau)]))
       (Some (self_upload_timeout self))"

definition client_get_credit_health ::
  "FinPilotClient \<Rightarrow> Settings \<Rightarrow> string option \<Rightarrow> network \<Rightarrow> (exn + json) \<times> network" where
  "client_get_credit_health self settings user_id =
     (let params = (if truthy user_id then [(''user_id'', opt_str user_id)] else [])
      in request self settings ''GET'' (endpoint ''credit_health'') (Some (JObj params)) None)"

definition client_analyze_portfolio ::
  "FinPilotClient \<Rightarrow> Settings \<Rightarrow> string option \<Rightarrow> pydict option \<Rightarrow> network
   \<Rightarrow> (exn + json) \<times> network" where
  "client_analyze_portfolio self settings cas_pdf_base64 portfolio_data =
     request self settings ''POST'' (endpoint ''portfolio_analyze'')
       (Some (JObj [(''cas_pdf_base64'', opt_str cas_pdf_base64),
                    (''portfolio_data'', opt_dict portfolio_data)]))
       (Some (self_upload_timeout self))"

definition client_optimize_loans ::
  "FinPilotClient \<Rightarrow> Settings \<Rightarrow> pydict list option \<Rightarrow> string option \<Rightarrow> network
   \<Rightarrow> (exn + json) \<times> network" where
  "client_optimize_loans self settings loans user_id =
     request self settings ''POST'' (endpoint ''loan_optimize'')
       (Some (JObj [(''loans'', opt_dict_list loans), (''user_id'', opt_str user_id)]))
       None"

definition client_create_financial_plan ::
  "FinPilotClient \<Rightarrow> Settings \<Rightarrow> pydict list \<Rightarrow> pydict \<Rightarrow> string option \<Rightarrow> network
   \<Rightarrow> (exn + json) \<times> network" where
  "client_create_financial_plan self settings goals current_situation user_id =
     request self settings ''POST'' (endpoint ''financial_plan'')
       (Some (JObj [(''goals'', dict_list goals),
                    (''current_situation'', JObj current_situation),
                    (''user_id'', opt_str user_id)]))
       None"

section \<open>server.py\<close>

text \<open>
  The two module-level objects. Importing the server module imports the client module,
  which imports the configuration module: the settings object is built first (its field
  values come from the environment and are given here), then the client object is
  constructed from it. Both exist before \<open>main\<close> runs.
\<close>

record process =
  settings :: Settings
  client :: FinPilotClient

definition import_modules :: "environ \<Rightarrow> Settings \<Rightarrow> process" where
  "import_modules env s = \<lparr>settings = s, client = FinPilotClient_init env s\<rparr>"

text \<open>The two command-line options that override settings.\<close>

record cli_args =
  arg_api_gateway_url :: "string option"
  arg_environment :: "string option"

text \<open>
  \<open>main\<close> up to the point where it starts serving: it assigns the overrides to the
  settings object, then exits (\<open>None\<close>) when no credential is configured.
\<close>

definition main :: "cli_args \<Rightarrow> process \<Rightarrow> process option" where
  "main args p =
     (let s1 = (if truthy (arg_api_gateway_url args)
                then (settings p)\<lparr>api_gateway_url := the (arg_api_gateway_url args)\<rparr>
                else settings p);
          s2 = (if truthy (arg_environment args)
                then s1\<lparr>environment := the (arg_environment args)\<rparr>
                else s1)
      in if \<not> has_auth s2 then None else Some (p\<lparr>settings := s2\<rparr>))"

subsection \<open>The tool handlers\<close>

definition success_envelope :: "json \<Rightarrow> json" where
  "success_envelope result = JObj [(''status'', JStr ''success''), (''data'', result)]"

definition error_envelope :: "string \<Rightarrow> json" where
  "error_envelope msg = JObj [(''status'', JStr ''error''), (''error'', JStr msg)]"

text \<open>
  Each handler is a \<open>try\<close> around one client call with \<open>except Exception\<close>, which matches
  every exception of type \<open>exn\<close>.
\<close>

definition tool_analyze_credit_report ::
  "process \<Rightarrow> (json \<Rightarrow> string) \<Rightarrow> string \<Rightarrow> string option \<Rightarrow> network \<Rightarrow> json \<times> network" where
  "tool_analyze_credit_report p render pdf_base64 bureau net =
     (case client_analyze_credit_report (client p) (settings p) pdf_base64 bureau net of
        (Inr result, net') \<Rightarrow> (success_envelope result, net')
      | (Inl e, net') \<Rightarrow> (error_envelope (exn_str render e), net'))"

definition tool_get_credit_health ::
  "process \<Rightarrow> (json \<Rightarrow> string) \<Rightarrow> string option \<Rightarrow> network \<Rightarrow> json \<times> network" where
  "tool_get_credit_health p render user_id net =
     (case client_get_credit_health (client p) (settings p) user_id net of
        (Inr result, net') \<Rightarrow> (success_envelope result, net')
      | (Inl e, net') \<Rightarrow> (error_envelope (exn_str render e), net'))"

definition tool_analyze_portfolio ::
  "process \<Rightarrow> (json \<Rightarrow> string) \<Rightarrow> string option \<Rightarrow> pydict option \<Rightarrow> network
   \<Rightarrow> json \<times> network" where
  "tool_analyze_portfolio p render cas_pdf_base64 portfolio_data net =
     (case client_analyze_portfolio (client p) (settings p) cas_pdf_base64 portfolio_data net of
        (Inr result, net') \<Rightarrow> (success_envelope result, net')
      | (Inl e, net') \<Rightarrow> (error_envelope (exn_str render e), net'))"

definition tool_optimize_loans ::
  "process \<Rightarrow> (json \<Rightarrow> string) \<Rightarrow> pydict list option \<Rightarrow> string option \<Rightarrow> network
   \<Rightarrow> json \<times> network" where
  "tool_optimize_loans p render loans user_id net =
     (case client_optimize_loans (client p) (settings p) loans user_id net of
        (Inr result, net') \<Rightarrow> (success_envelope result, net')
      | (Inl e, net') \<Rightarrow> (error_envelope (exn_str render e), net'))"

definition tool_create_financial_plan ::
  "process \<Rightarrow> (json \<Rightarrow> string) \<Rightarrow> pydict list \<Rightarrow> pydict \<Rightarrow> string option \<Rightarrow> network
   \<Rightarrow> json \<times> network" where
  "tool_create_financial_plan p render goals current_situation user_id net =
     (case client_create_financial_plan (client p) (settings p) goals current_situation
             user_id net of
        (Inr result, net') \<Rightarrow> (success_envelope result, net')
      | (Inl e, net') \<Rightarrow> (error_envelope (exn_str render e), net'))"

subsection \<open>Invocations\<close>

text \<open>
  One invocation of a registered tool with its arguments, as the host runtime delivers
  it; \<open>call_tool\<close> runs the handler registered under that name and \<open>call_client\<close> the
  client operation that the handler calls.
\<close>

datatype tool_call =
    AnalyzeCreditReport string "string option"
  | GetCreditHealth "string option"
  | AnalyzePortfolio "string option" "pydict option"
  | OptimizeLoans "pydict list option" "string option"
  | CreateFinancialPlan "pydict list" pydict "string option"

fun call_client ::
  "FinPilotClient \<Rightarrow> Settings \<Rightarrow> tool_call \<Rightarrow> network \<Rightarrow> (exn + json) \<times> network" where
  "call_client c s (AnalyzeCreditReport pdf bureau) = client_analyze_credit_report c s pdf bureau"
| "call_client c s (GetCreditHealth uid) = client_get_credit_health c s uid"
| "call_client c s (AnalyzePortfolio cas pd) = client_analyze_portfolio c s cas pd"
| "call_client c s (OptimizeLoans loans uid) = client_optimize_loans c s loans uid"
| "call_client c s (CreateFinancialPlan goals cur uid) =
     client_create_financial_plan c s goals cur uid"

fun call_tool :: "process \<Rightarrow> (json \<Rightarrow> string) \<Rightarrow> tool_call \<Rightarrow> network \<Rightarrow> json \<times> network" where
  "call_tool p render (AnalyzeCreditReport pdf bureau) =
     tool_analyze_credit_report p render pdf bureau"
| "call_tool p render (GetCreditHealth uid) = tool_get_credit_health p render uid"
| "call_tool p render (AnalyzePortfolio cas pd) = tool_analyze_portfolio p render cas pd"
| "call_tool p render (OptimizeLoans loans uid) = tool_optimize_loans p render loans uid"
| "call_tool p render (CreateFinancialPlan goals cur uid) =
     tool_create_financial_plan p render goals cur uid"

text \<open>Whether an invocation is one of the two upload-class operations.\<close>

fun is_upload :: "tool_call \<Rightarrow> bool" where
  "is_upload (AnalyzeCreditReport _ _) = True"
| "is_upload (AnalyzePortfolio _ _) = True"
| "is_upload _ = False"

text \<open>A network that answers every request with the same outcome.\<close>

definition always :: "http_outcome \<Rightarrow> network" where
  "always out = \<lparr>respond = (\<lambda>_. out), sent = []\<rparr>"

text \<open>
  The request an invocation puts on the wire and the outcome the network gives it. Every
  invocation appends exactly one request to the log (lemma \<open>call_client_sent\<close> below), so
  the last entry of the log after the call is that request.
\<close>

definition wire :: "FinPilotClient \<Rightarrow> Settings \<Rightarrow> tool_call \<Rightarrow> network \<Rightarrow> http_request" where
  "wire c s call net = last (sent (snd (call_client c s call net)))"

definition outcome_of :: "FinPilotClient \<Rightarrow> Settings \<Rightarrow> tool_call \<Rightarrow> network \<Rightarrow> http_outcome" where
  "outcome_of c s call net = respond net (wire c s call net)"

text \<open>The value stored under a key of the JSON body of a request, when the key is there.\<close>

definition body_field :: "http_request \<Rightarrow> string \<Rightarrow> json option" where
  "body_field r k = (case req_json r of Some (JObj d) \<Rightarrow> map_of d k | _ \<Rightarrow> None)"

section \<open>One request per invocation\<close>

text \<open>
  The request primitive sends the request it has built and returns the classification of
  what the network answers to it.
\<close>

lemma request_run:
  "request self s m e b t net =
     (handle_outcome (respond net \<lparr>req_method = m, req_url = self_base_url self @ e, req_headers = get_headers s, req_json = b, req_timeout = timeout_or t (self_timeout self)\<rparr>),
      net\<lparr>sent := sent net @ [\<lparr>req_method = m, req_url = self_base_url self @ e, req_headers = get_headers s, req_json = b, req_timeout = timeout_or t (self_timeout self)\<rparr>]\<rparr>)"
  by (simp add: request_def client_request_def Let_def)

lemma endpoint_values:
  "endpoint ''credit_analyze'' = ''/v1/credit/analyze''"
  "endpoint ''credit_health'' = ''/v1/credit/health''"
  "endpoint ''portfolio_analyze'' = ''/v1/portfolio/analyze''"
  "endpoint ''loan_optimize'' = ''/v1/loans/optimize''"
  "endpoint ''financial_plan'' = ''/v1/plan/create''"
  by (simp_all add: endpoint_def ENDPOINTS_def)

lemma request_wire:
  "last (sent (snd (request self s m e b t net))) =
     \<lparr>req_method = m, req_url = self_base_url self @ e, req_headers = get_headers s,
      req_json = b, req_timeout = timeout_or t (self_timeout self)\<rparr>"
  by (simp add: request_run)

lemma request_sent:
  "sent (snd (request self s m e b t net)) = sent net @ [last (sent (snd (request self s m e b t net)))]"
  by (simp add: request_run)

lemma request_result:
  "fst (request self s m e b t net) =
     handle_outcome (respond net (last (sent (snd (request self s m e b t net)))))"
  by (simp add: request_run)

lemma call_client_request:
  "\<exists>m e b t. call_client c s call = request c s m e b t"
  by (cases call)
     (auto simp: client_analyze_credit_report_def client_get_credit_health_def
        client_analyze_portfolio_def client_optimize_loans_def client_create_financial_plan_def Let_def)

lemma call_client_sent:
  "sent (snd (call_client c s call net)) = sent net @ [wire c s call net]"
proof -
  obtain m e b t where "call_client c s call = request c s m e b t"
    using call_client_request by blast
  then show ?thesis unfolding wire_def using request_sent by simp
qed

lemma call_client_result:
  "fst (call_client c s call net) = handle_outcome (outcome_of c s call net)"
proof -
  obtain m e b t where "call_client c s call = request c s m e b t"
    using call_client_request by blast
  then show ?thesis unfolding wire_def outcome_of_def using request_result by simp
qed

lemma call_tool_result:
  "fst (call_tool p render call net) =
     (case fst (call_client (client p) (settings p) call net) of
        Inr v \<Rightarrow> success_envelope v
      | Inl e \<Rightarrow> error_envelope (exn_str render e))"
  by (cases call)
     (auto simp: tool_analyze_credit_report_def tool_get_credit_health_def
        tool_analyze_portfolio_def tool_optimize_loans_def tool_create_financial_plan_def
        split: prod.splits sum.splits)

lemma call_tool_net:
  "snd (call_tool p render call net) = snd (call_client (client p) (settings p) call net)"
  by (cases call)
     (auto simp: tool_analyze_credit_report_def tool_get_credit_health_def
        tool_analyze_portfolio_def tool_optimize_loans_def tool_create_financial_plan_def
        split: prod.splits sum.splits)

lemma wire_values:
  "wire c s (AnalyzeCreditReport pdf bureau) net =
     \<lparr>req_method = ''POST'', req_url = self_base_url c @ ''/v1/credit/analyze'',
      req_headers = get_headers s,
      req_json = Some (JObj [(''pdf_base64'', JStr pdf), (''bureau'', opt_str bureau)]),
      req_timeout = timeout_or (Some (self_upload_timeout c)) (self_timeout c)\<rparr>"
  "wire c s (GetCreditHealth uid) net =
     \<lparr>req_method = ''GET'', req_url = self_base_url c @ ''/v1/credit/health'',
      req_headers = get_headers s,
      req_json = Some (JObj (if truthy uid then [(''user_id'', opt_str uid)] else [])),
      req_timeout = self_timeout c\<rparr>"
  "wire c s (AnalyzePortfolio cas pd) net =
     \<lparr>req_method = ''POST'', req_url = self_base_url c @ ''/v1/portfolio/analyze'',
      req_headers = get_headers s,
      req_json = Some (JObj [(''cas_pdf_base64'', opt_str cas), (''portfolio_data'', opt_dict pd)]),
      req_timeout = timeout_or (Some (self_upload_timeout c)) (self_timeout c)\<rparr>"
  "wire c s (OptimizeLoans loans uid) net =
     \<lparr>req_method = ''POST'', req_url = self_base_url c @ ''/v1/loans/optimize'',
      req_headers = get_headers s,
      req_json = Some (JObj [(''loans'', opt_dict_list loans), (''user_id'', opt_str uid)]),
      req_timeout = self_timeout c\<rparr>"
  "wire c s (CreateFinancialPlan goals cur uid) net =
     \<lparr>req_method = ''POST'', req_url = self_base_url c @ ''/v1/plan/create'',
      req_headers = get_headers s,
      req_json = Some (JObj [(''goals'', dict_list goals), (''current_situation'', JObj cur),
                             (''user_id'', opt_str uid)]),
      req_timeout = self_timeout c\<rparr>"
  by (simp_all add: wire_def client_analyze_credit_report_def client_get_credit_health_def
        client_analyze_portfolio_def client_optimize_loans_def client_create_financial_plan_def
        request_wire endpoint_values timeout_or_def Let_def)

section \<open>Auxiliary facts\<close>

lemma str_int_404: "str_int 404 = ''404''"
  by code_simp

lemma str_int_503: "str_int 503 = ''503''"
  by code_simp

text \<open>\<open>main\<close> assigns to the settings object only: the client object is left as built.\<close>

lemma main_keeps_client: "main args p = Some p' \<Longrightarrow> client p' = client p"
  by (auto simp: main_def Let_def split: if_splits)

text \<open>
  Every timeout of the HTTP library is also one of its request errors, so the order of
  the two \<open>except\<close> clauses decides how a timeout is classified.
\<close>

lemma timeouts_are_request_errors: "is_TimeoutException e \<Longrightarrow> is_RequestError e"
  by (cases e) simp_all

text \<open>The timeout and the headers of the request of any invocation.\<close>

lemma timeout_selection:
  "req_timeout (wire c s call net) =
     (if is_upload call \<and> self_upload_timeout c \<noteq> 0 then self_upload_timeout c
      else self_timeout c)"
  by (cases call) (simp_all add: wire_values timeout_or_def)

lemma wire_headers: "req_headers (wire c s call net) = get_headers s"
  by (cases call) (simp_all add: wire_values)

text \<open>
  A token or key that is set to the empty string fails the truth test of the header
  construction, although \<open>has_auth\<close> counts it.
\<close>

lemma get_headers_empty_token:
  assumes "jwt_token s = Some []" and "api_key s = None"
  shows "get_headers s ''Authorization'' = None \<and> get_headers s ''X-API-Key'' = None
         \<and> has_auth s"
  using assms by (simp add: get_headers_def has_auth_def Let_def)

section \<open>Request bodies\<close>

text \<open>
  Claim C1, as the code has it. Four operations send a body with one key for every
  parameter, the value being null (\<open>JNull\<close>) when the optional parameter is absent:
  analyze_credit_report, analyze_portfolio, optimize_loans and create_financial_plan.
  get_credit_health is different: it sends the key \<open>user_id\<close> only when a non-empty
  user id is given, and the empty object otherwise.
\<close>

theorem request_bodies:
  "req_json (wire c s (AnalyzeCreditReport pdf bureau) net) =
     Some (JObj [(''pdf_base64'', JStr pdf),
                 (''bureau'', case bureau of None \<Rightarrow> JNull | Some b \<Rightarrow> JStr b)])
   \<and> req_json (wire c s (AnalyzePortfolio cas pd) net) =
     Some (JObj [(''cas_pdf_base64'', case cas of None \<Rightarrow> JNull | Some x \<Rightarrow> JStr x),
                 (''portfolio_data'', case pd of None \<Rightarrow> JNull | Some x \<Rightarrow> JObj x)])
   \<and> req_json (wire c s (OptimizeLoans loans uid) net) =
     Some (JObj [(''loans'', case loans of None \<Rightarrow> JNull | Some ls \<Rightarrow> JArr (map JObj ls)),
                 (''user_id'', case uid of None \<Rightarrow> JNull | Some u \<Rightarrow> JStr u)])
   \<and> req_json (wire c s (CreateFinancialPlan goals cur uid) net) =
     Some (JObj [(''goals'', JArr (map JObj goals)),
                 (''current_situation'', JObj cur),
                 (''user_id'', case uid of None \<Rightarrow> JNull | Some u \<Rightarrow> JStr u)])
   \<and> req_json (wire c s (GetCreditHealth uid) net) =
     Some (JObj (case uid of
                   None \<Rightarrow> []
                 | Some u \<Rightarrow> if u = [] then [] else [(''user_id'', JStr u)]))"
  by (simp add: wire_values opt_str_def opt_dict_def opt_dict_list_def dict_list_def
        split: option.splits)

text \<open>
  Claim C1 as stated fails for get_credit_health called with no user id: the body is the
  empty object, so the key \<open>user_id\<close> is not there with value null.
\<close>

theorem credit_health_body_counterexample:
  "req_json (wire \<lparr>self_base_url = ''https://api.finpilot.ai'', self_timeout = 30, self_upload_timeout = 120\<rparr>
               default_settings (GetCreditHealth None) (always (Raised ConnectError ''refused'')))
     = Some (JObj [])
   \<and> body_field (wire \<lparr>self_base_url = ''https://api.finpilot.ai'', self_timeout = 30, self_upload_timeout = 120\<rparr>
               default_settings (GetCreditHealth None) (always (Raised ConnectError ''refused'')))
       ''user_id'' \<noteq> Some JNull"
  by (simp add: wire_values body_field_def)

section \<open>Command-line overrides\<close>

text \<open>
  Claim C2 at a concrete start of the process. The settings are the defaults with an API
  key, the process is started with \<open>--api-gateway-url http://localhost:9000\<close>, and
  \<open>main\<close> reaches the serving state. The overridden settings resolve to the overridden
  URL, but the request of a tool call goes to the URL that the client object copied when
  it was constructed at import, before \<open>main\<close> ran.
\<close>

theorem cli_override_not_seen_by_client:
  "(case main \<lparr>arg_api_gateway_url = Some ''http://localhost:9000'', arg_environment = None\<rparr>
           (import_modules Map.empty (default_settings\<lparr>api_key := Some ''k-1''\<rparr>)) of
      None \<Rightarrow> False
    | Some p \<Rightarrow>
        effective_gateway_url Map.empty (settings p) = ''http://localhost:9000''
        \<and> req_url (wire (client p) (settings p) (GetCreditHealth None)
                     (always (Raised ConnectError ''refused'')))
            = ''https://api.finpilot.ai/v1/credit/health'')"
  by (simp add: main_def import_modules_def default_settings_def has_auth_def Let_def
        FinPilotClient_init_def effective_gateway_url_def is_local_dev_def
        DEFAULT_API_GATEWAY_URL_def wire_values)

section \<open>Remote rejections\<close>

text \<open>
  Claim C3 at a concrete response. The remote answers get_credit_health with status 502
  and the body \<open><html>Bad Gateway</html>\<close>, which is not JSON. The claim asks for the
  typed error with status code 502 and the fallback message \<open>API request failed\<close>.
  Decoding the body raises instead, neither \<open>except\<close> clause of the request primitive
  matches, and what leaves the client is the decode error: the status code is lost and
  the error is not the typed one that the primitive documents for a failed request.
\<close>

theorem non_json_error_body_not_typed:
  "fst (call_client \<lparr>self_base_url = ''https://api.finpilot.ai'', self_timeout = 30, self_upload_timeout = 120\<rparr>
          default_settings (GetCreditHealth None)
          (always (Responded \<lparr>status_code = 502, content = ''<html>Bad Gateway</html>'',
             response_json = Inl ''Expecting value: line 1 column 1 (char 0)''\<rparr>)))
     = Inl (JSONDecodeError ''Expecting value: line 1 column 1 (char 0)'')
   \<and> fst (call_client \<lparr>self_base_url = ''https://api.finpilot.ai'', self_timeout = 30, self_upload_timeout = 120\<rparr>
          default_settings (GetCreditHealth None)
          (always (Responded \<lparr>status_code = 502, content = ''<html>Bad Gateway</html>'',
             response_json = Inl ''Expecting value: line 1 column 1 (char 0)''\<rparr>)))
     \<noteq> Inl (FinPilotAPIError 502 (JStr ''API request failed'') [])"
  unfolding call_client_result
  by (simp add: outcome_of_def always_def handle_outcome_def check_response_def)

text \<open>
  On the other error responses the request primitive does raise the typed error. When
  the response has status 400 or more and its body is empty or decodes to a JSON object
  \<open>d\<close> (\<open>d\<close> is empty for the empty body), the error carries that status code, the
  value under \<open>message\<close> in \<open>d\<close> as message, or \<open>API request failed\<close> when there is
  none, and \<open>d\<close> as details; for status 404 and the message \<open>not found\<close> the tool
  result is the error envelope with the text \<open>API Error 404: not found\<close>.
\<close>

lemma remote_rejection_on_json_bodies:
  assumes "outcome_of (client p) (settings p) call net = Responded r"
    and "400 \<le> status_code r"
    and "content r = [] \<and> d = [] \<or> content r \<noteq> [] \<and> response_json r = Inr (JObj d)"
  shows "fst (call_client (client p) (settings p) call net) =
           Inl (FinPilotAPIError (status_code r)
                  (case map_of d ''message'' of
                     Some m \<Rightarrow> m
                   | None \<Rightarrow> JStr ''API request failed'')
                  d)
       \<and> (status_code r = 404 \<and> map_of d ''message'' = Some (JStr ''not found'') \<longrightarrow>
            fst (call_tool p render call net) =
              JObj [(''status'', JStr ''error''), (''error'', JStr ''API Error 404: not found'')])"
proof -
  have eq: "check_response r =
           Inl (FinPilotAPIError (status_code r)
                  (case map_of d ''message'' of
                     Some m \<Rightarrow> m
                   | None \<Rightarrow> JStr ''API request failed'')
                  d)"
    using assms(2,3)
    by (auto simp: check_response_def py_get_def FinPilotAPIError_init_def)
  have res: "fst (call_client (client p) (settings p) call net) = check_response r"
    using assms(1) by (simp add: call_client_result handle_outcome_def)
  show ?thesis
    using eq res
    by (simp add: call_tool_result error_envelope_def str_int_404 py_str_def)
qed

lemma remote_rejection_on_json_bodies_example:
  "fst (call_tool (import_modules Map.empty (default_settings\<lparr>api_key := Some ''key-1''\<rparr>))
          (\<lambda>v. []) (CreateFinancialPlan [] [] None)
          (always (Responded \<lparr>status_code = 404, content = ''{\"message\": \"not found\"}'',
             response_json = Inr (JObj [(''message'', JStr ''not found'')])\<rparr>)))
     = JObj [(''status'', JStr ''error''), (''error'', JStr ''API Error 404: not found'')]
   \<and> fst (call_client
            (client (import_modules Map.empty (default_settings\<lparr>api_key := Some ''key-1''\<rparr>)))
            (settings (import_modules Map.empty (default_settings\<lparr>api_key := Some ''key-1''\<rparr>)))
            (CreateFinancialPlan [] [] None)
            (always (Responded \<lparr>status_code = 500, content = [],
               response_json = Inl ''Expecting value: line 1 column 1 (char 0)''\<rparr>)))
     = Inl (FinPilotAPIError 500 (JStr ''API request failed'') [])"
proof -
  let ?p = "import_modules Map.empty (default_settings\<lparr>api_key := Some ''key-1''\<rparr>)"
  let ?call = "CreateFinancialPlan [] [] None"
  let ?r1 = "\<lparr>status_code = 404, content = ''{\"message\": \"not found\"}'',
             response_json = Inr (JObj [(''message'', JStr ''not found'')])\<rparr>"
  let ?r2 = "\<lparr>status_code = 500, content = [],
               response_json = Inl ''Expecting value: line 1 column 1 (char 0)''\<rparr>"
  have a1: "outcome_of (client ?p) (settings ?p) ?call (always (Responded ?r1)) = Responded ?r1"
    by (simp add: outcome_of_def always_def)
  have a2: "400 \<le> status_code ?r1" by simp
  have a3: "content ?r1 = [] \<and> [(''message'', JStr ''not found'')] = []
            \<or> content ?r1 \<noteq> [] \<and> response_json ?r1 = Inr (JObj [(''message'', JStr ''not found'')])"
    by simp
  have b1: "outcome_of (client ?p) (settings ?p) ?call (always (Responded ?r2)) = Responded ?r2"
    by (simp add: outcome_of_def always_def)
  have b2: "400 \<le> status_code ?r2" by simp
  have b3: "content ?r2 = [] \<and> [] = [] \<or> content ?r2 \<noteq> [] \<and> response_json ?r2 = Inr (JObj [])"
    by simp
  show ?thesis
    using remote_rejection_on_json_bodies [OF a1 a2 a3, of "\<lambda>v. []"] remote_rejection_on_json_bodies [OF b1 b2 b3, of "\<lambda>v. []"]
    by simp
qed

section \<open>Transport failures\<close>

text \<open>
  Claim C4. For every operation, when the outbound call raises an exception \<open>e\<close> of the
  HTTP library with text \<open>msg\<close>: if \<open>e\<close> is a timeout the client raises the typed
  error with status 504, message \<open>Request timeout\<close> and details holding \<open>msg\<close>; if
  \<open>e\<close> is any other request error it raises the typed error with status 503, message
  \<open>Failed to connect to API\<close> and details holding \<open>msg\<close>; and a timeout never gives a
  typed error with status 503.
\<close>

theorem transport_failures_classified:
  assumes "outcome_of c s call net = Raised e msg"
  shows "(is_TimeoutException e \<longrightarrow>
            fst (call_client c s call net) =
              Inl (FinPilotAPIError 504 (JStr ''Request timeout'') [(''error'', JStr msg)]))
       \<and> (\<not> is_TimeoutException e \<and> is_RequestError e \<longrightarrow>
            fst (call_client c s call net) =
              Inl (FinPilotAPIError 503 (JStr ''Failed to connect to API'') [(''error'', JStr msg)]))
       \<and> (is_TimeoutException e \<longrightarrow>
            (\<forall>m d. fst (call_client c s call net) \<noteq> Inl (FinPilotAPIError 503 m d)))"
  using assms
  by (simp add: call_client_result handle_outcome_def FinPilotAPIError_init_def)

theorem transport_failures_classified_witness:
  "is_TimeoutException ReadTimeout
   \<and> fst (call_client
            \<lparr>self_base_url = ''https://api.finpilot.ai'', self_timeout = 30, self_upload_timeout = 120\<rparr>
            default_settings (AnalyzeCreditReport ''JVBERi0='' None)
            (always (Raised ReadTimeout ''timed out'')))
       = Inl (FinPilotAPIError 504 (JStr ''Request timeout'') [(''error'', JStr ''timed out'')])
   \<and> \<not> is_TimeoutException ConnectError \<and> is_RequestError ConnectError
   \<and> fst (call_client
            \<lparr>self_base_url = ''https://api.finpilot.ai'', self_timeout = 30, self_upload_timeout = 120\<rparr>
            default_settings (AnalyzeCreditReport ''JVBERi0='' None)
            (always (Raised ConnectError ''All connection attempts failed'')))
       = Inl (FinPilotAPIError 503 (JStr ''Failed to connect to API'')
                [(''error'', JStr ''All connection attempts failed'')])"
proof -
  let ?c = "\<lparr>self_base_url = ''https://api.finpilot.ai'', self_timeout = 30, self_upload_timeout = 120\<rparr>"
  let ?call = "AnalyzeCreditReport ''JVBERi0='' None"
  have h1: "outcome_of ?c default_settings ?call (always (Raised ReadTimeout ''timed out''))
              = Raised ReadTimeout ''timed out''"
    by (simp add: outcome_of_def always_def)
  have h2: "outcome_of ?c default_settings ?call
              (always (Raised ConnectError ''All connection attempts failed''))
              = Raised ConnectError ''All connection attempts failed''"
    by (simp add: outcome_of_def always_def)
  have t: "is_TimeoutException ReadTimeout" by simp
  have n: "\<not> is_TimeoutException ConnectError \<and> is_RequestError ConnectError" by simp
  show ?thesis
    using t n transport_failures_classified [OF h1] transport_failures_classified [OF h2]
    by blast
qed

section \<open>Tool results\<close>

text \<open>
  Claim C5. For every tool, when the response to its request has a status below 400 and
  its body decodes to the JSON value \<open>v\<close>, the tool result is exactly the dictionary with
  \<open>status\<close> = \<open>success\<close> and \<open>data\<close> = \<open>v\<close>.
\<close>

theorem success_pass_through:
  assumes "outcome_of (client p) (settings p) call net = Responded r"
    and "status_code r < 400"
    and "response_json r = Inr v"
  shows "fst (call_tool p render call net) = JObj [(''status'', JStr ''success''), (''data'', v)]"
  using assms
  by (simp add: call_tool_result call_client_result handle_outcome_def check_response_def
        success_envelope_def)

theorem success_pass_through_witness:
  "status_code \<lparr>status_code = 200, content = ''{\"score\": 750}'',
       response_json = Inr (JObj [(''score'', JInt 750)])\<rparr> < 400
   \<and> fst (call_tool (import_modules Map.empty (default_settings\<lparr>api_key := Some ''key-1''\<rparr>))
            (\<lambda>v. []) (GetCreditHealth None)
            (always (Responded \<lparr>status_code = 200, content = ''{\"score\": 750}'',
               response_json = Inr (JObj [(''score'', JInt 750)])\<rparr>)))
     = JObj [(''status'', JStr ''success''), (''data'', JObj [(''score'', JInt 750)])]"
proof -
  let ?r = "\<lparr>status_code = 200, content = ''{\"score\": 750}'',
       response_json = Inr (JObj [(''score'', JInt 750)])\<rparr>"
  let ?p = "import_modules Map.empty (default_settings\<lparr>api_key := Some ''key-1''\<rparr>)"
  have h1: "outcome_of (client ?p) (settings ?p) (GetCreditHealth None) (always (Responded ?r))
              = Responded ?r"
    by (simp add: outcome_of_def always_def)
  have h2: "status_code ?r < 400" by simp
  have h3: "response_json ?r = Inr (JObj [(''score'', JInt 750)])" by simp
  show ?thesis
    using h2 success_pass_through [OF h1 h2 h3, of "\<lambda>v. []"] by simp
qed

text \<open>
  Claim C6. For every tool: whenever the client operation raises an exception \<open>e\<close>, the
  handler returns the error envelope carrying \<open>str(e)\<close>; in particular a response with a
  status below 400 whose body does not decode gives the error envelope with the text of
  the decode error; and the result of a handler is always one of the two envelopes. The
  handlers are total functions into results, which is what \<open>except Exception\<close> gives for
  the exceptions of type \<open>exn\<close>.
\<close>

theorem tool_errors_enveloped:
  "(\<forall>e. fst (call_client (client p) (settings p) call net) = Inl e \<longrightarrow>
        fst (call_tool p render call net) =
          JObj [(''status'', JStr ''error''), (''error'', JStr (exn_str render e))])
   \<and> (\<forall>r msg. outcome_of (client p) (settings p) call net = Responded r
          \<and> status_code r < 400 \<and> response_json r = Inl msg \<longrightarrow>
        fst (call_tool p render call net) =
          JObj [(''status'', JStr ''error''), (''error'', JStr msg)])
   \<and> ((\<exists>v. fst (call_tool p render call net) =
              JObj [(''status'', JStr ''success''), (''data'', v)])
      \<or> (\<exists>m. fst (call_tool p render call net) =
              JObj [(''status'', JStr ''error''), (''error'', JStr m)]))"
  by (auto simp: call_tool_result call_client_result handle_outcome_def check_response_def
        success_envelope_def error_envelope_def split: sum.splits)

theorem tool_errors_enveloped_witness:
  "fst (call_tool (import_modules Map.empty (default_settings\<lparr>api_key := Some ''key-1''\<rparr>))
          (\<lambda>v. []) (OptimizeLoans None None)
          (always (Raised ConnectError ''refused'')))
     = JObj [(''status'', JStr ''error''),
             (''error'', JStr ''API Error 503: Failed to connect to API'')]
   \<and> fst (call_tool (import_modules Map.empty (default_settings\<lparr>api_key := Some ''key-1''\<rparr>))
          (\<lambda>v. []) (OptimizeLoans None None)
          (always (Responded \<lparr>status_code = 200, content = ''<html>ok</html>'',
             response_json = Inl ''Expecting value: line 1 column 1 (char 0)''\<rparr>)))
     = JObj [(''status'', JStr ''error''),
             (''error'', JStr ''Expecting value: line 1 column 1 (char 0)'')]"
proof -
  let ?p = "import_modules Map.empty (default_settings\<lparr>api_key := Some ''key-1''\<rparr>)"
  let ?call = "OptimizeLoans None None"
  let ?r = "\<lparr>status_code = 200, content = ''<html>ok</html>'',
             response_json = Inl ''Expecting value: line 1 column 1 (char 0)''\<rparr>"
  let ?e = "FinPilotAPIError 503 (JStr ''Failed to connect to API'') [(''error'', JStr ''refused'')]"
  have h1: "fst (call_client (client ?p) (settings ?p) ?call (always (Raised ConnectError ''refused'')))
              = Inl ?e"
    unfolding call_client_result
    by (simp add: outcome_of_def always_def handle_outcome_def FinPilotAPIError_init_def)
  have h2: "outcome_of (client ?p) (settings ?p) ?call (always (Responded ?r)) = Responded ?r
            \<and> status_code ?r < 400
            \<and> response_json ?r = Inl ''Expecting value: line 1 column 1 (char 0)''"
    by (simp add: outcome_of_def always_def)
  have s: "exn_str (\<lambda>v. []) ?e = ''API Error 503: Failed to connect to API''"
    by (simp add: str_int_503 py_str_def)
  show ?thesis
    using h1 h2 s
      tool_errors_enveloped [of ?p ?call "always (Raised ConnectError ''refused'')" "\<lambda>v. []"]
      tool_errors_enveloped [of ?p ?call "always (Responded ?r)" "\<lambda>v. []"]
    by metis
qed

section \<open>Headers\<close>

text \<open>
  Claim C7. The request of every invocation carries \<open>Content-Type: application/json\<close> and
  never both authentication headers. A token or key counts as configured when it passes
  the truth test of the code, that is, when it is set and not empty. With a bearer token
  configured the request carries \<open>Authorization: Bearer\<close> with that token and no
  \<open>X-API-Key\<close>, whatever the API key is; with only an API key configured it carries
  \<open>X-API-Key\<close> with that key and no \<open>Authorization\<close>; with neither it carries neither.
\<close>

theorem request_headers:
  "req_headers (wire c s call net) ''Content-Type'' = Some ''application/json''
   \<and> (req_headers (wire c s call net) ''Authorization'' = None
      \<or> req_headers (wire c s call net) ''X-API-Key'' = None)
   \<and> (\<forall>tok. jwt_token s = Some tok \<and> tok \<noteq> [] \<longrightarrow>
          req_headers (wire c s call net) ''Authorization'' = Some (''Bearer '' @ tok)
          \<and> req_headers (wire c s call net) ''X-API-Key'' = None)
   \<and> (\<forall>key. \<not> truthy (jwt_token s) \<and> api_key s = Some key \<and> key \<noteq> [] \<longrightarrow>
          req_headers (wire c s call net) ''X-API-Key'' = Some key
          \<and> req_headers (wire c s call net) ''Authorization'' = None)
   \<and> (\<not> truthy (jwt_token s) \<and> \<not> truthy (api_key s) \<longrightarrow>
          req_headers (wire c s call net) ''Authorization'' = None
          \<and> req_headers (wire c s call net) ''X-API-Key'' = None)"
  by (simp add: wire_headers get_headers_def Let_def)

theorem request_headers_witness:
  "req_headers
     (wire \<lparr>self_base_url = ''https://api.finpilot.ai'', self_timeout = 30, self_upload_timeout = 120\<rparr>
        (default_settings\<lparr>api_key := Some ''key-1'', jwt_token := Some ''tok-1''\<rparr>)
        (GetCreditHealth None) (always (Raised ConnectError ''refused'')))
     ''Authorization'' = Some ''Bearer tok-1''
   \<and> req_headers
     (wire \<lparr>self_base_url = ''https://api.finpilot.ai'', self_timeout = 30, self_upload_timeout = 120\<rparr>
        (default_settings\<lparr>api_key := Some ''key-1'', jwt_token := Some ''tok-1''\<rparr>)
        (GetCreditHealth None) (always (Raised ConnectError ''refused'')))
     ''X-API-Key'' = None
   \<and> req_headers
     (wire \<lparr>self_base_url = ''https://api.finpilot.ai'', self_timeout = 30, self_upload_timeout = 120\<rparr>
        (default_settings\<lparr>api_key := Some ''key-1''\<rparr>)
        (GetCreditHealth None) (always (Raised ConnectError ''refused'')))
     ''X-API-Key'' = Some ''key-1''
   \<and> req_headers
     (wire \<lparr>self_base_url = ''https://api.finpilot.ai'', self_timeout = 30, self_upload_timeout = 120\<rparr>
        (default_settings\<lparr>api_key := Some ''key-1''\<rparr>)
        (GetCreditHealth None) (always (Raised ConnectError ''refused'')))
     ''Authorization'' = None
   \<and> req_headers
     (wire \<lparr>self_base_url = ''https://api.finpilot.ai'', self_timeout = 30, self_upload_timeout = 120\<rparr>
        default_settings
        (GetCreditHealth None) (always (Raised ConnectError ''refused'')))
     ''Authorization'' = None"
proof -
  let ?c = "\<lparr>self_base_url = ''https://api.finpilot.ai'', self_timeout = 30, self_upload_timeout = 120\<rparr>"
  let ?call = "GetCreditHealth None"
  let ?net = "always (Raised ConnectError ''refused'')"
  let ?both = "default_settings\<lparr>api_key := Some ''key-1'', jwt_token := Some ''tok-1''\<rparr>"
  let ?key = "default_settings\<lparr>api_key := Some ''key-1''\<rparr>"
  have h1: "jwt_token ?both = Some ''tok-1'' \<and> ''tok-1'' \<noteq> []"
    by (simp add: default_settings_def)
  have h2: "\<not> truthy (jwt_token ?key) \<and> api_key ?key = Some ''key-1'' \<and> ''key-1'' \<noteq> []"
    by (simp add: default_settings_def)
  have h3: "\<not> truthy (jwt_token default_settings) \<and> \<not> truthy (api_key default_settings)"
    by (simp add: default_settings_def)
  show ?thesis
    using h1 h2 h3
      request_headers [of ?c ?both ?call ?net]
      request_headers [of ?c ?key ?call ?net]
      request_headers [of ?c default_settings ?call ?net]
    by (simp add: default_settings_def)
qed

section \<open>Timeouts\<close>

text \<open>
  Claim C8 at a concrete configuration. The upload timeout is configured as 0 and the
  standard timeout as 30; the client is the one built at import. The request of
  analyze_credit_report is issued with timeout 30, not with the configured upload
  timeout.
\<close>

theorem upload_timeout_zero_not_used:
  "upload_timeout (settings (import_modules Map.empty
       (default_settings\<lparr>api_key := Some ''k-1'', request_timeout := 30, upload_timeout := 0\<rparr>))) = 0
   \<and> req_timeout
       (wire (client (import_modules Map.empty
                (default_settings\<lparr>api_key := Some ''k-1'', request_timeout := 30, upload_timeout := 0\<rparr>)))
             (settings (import_modules Map.empty
                (default_settings\<lparr>api_key := Some ''k-1'', request_timeout := 30, upload_timeout := 0\<rparr>)))
             (AnalyzeCreditReport ''JVBERi0='' None)
             (always (Raised ConnectError ''refused''))) = 30"
  by (simp add: import_modules_def default_settings_def FinPilotClient_init_def wire_values
        timeout_or_def)

section \<open>The gateway URL\<close>

text \<open>
  Claim C9. The effective gateway URL: when the environment tag equals \<open>development\<close>, the
  value of the environment variable \<open>FINPILOT_API_GATEWAY_URL\<close> when it is set and
  \<open>http://localhost:8000\<close> otherwise; for every other tag, the configured gateway URL.
\<close>

theorem effective_gateway_url_rule:
  "effective_gateway_url env s =
     (if environment s = ''development''
      then (case env ''FINPILOT_API_GATEWAY_URL'' of
              Some v \<Rightarrow> v
            | None \<Rightarrow> ''http://localhost:8000'')
      else api_gateway_url s)"
  by (simp add: effective_gateway_url_def is_local_dev_def os_getenv_def
        LOCAL_API_GATEWAY_URL_def)

section \<open>A timeout of zero\<close>

text \<open>
  Claim C10. A call of the request primitive with the timeout 0 sends exactly one request
  and that request carries the standard timeout of the client. In particular, for a
  client built from settings whose upload timeout is 0, the request of an upload-class
  operation carries the configured standard request timeout.
\<close>

theorem zero_timeout_falls_back:
  "(\<exists>r. sent (snd (request self s m e b (Some 0) net)) = sent net @ [r]
        \<and> req_timeout r = self_timeout self)
   \<and> (is_upload call \<and> upload_timeout st = 0 \<longrightarrow>
        req_timeout (wire (FinPilotClient_init env st) s call net) = request_timeout st)"
  by (simp add: request_run timeout_or_def timeout_selection FinPilotClient_init_def)

theorem zero_timeout_falls_back_witness:
  "is_upload (AnalyzePortfolio None None)
   \<and> upload_timeout (default_settings\<lparr>upload_timeout := 0\<rparr>) = 0
   \<and> req_timeout
       (wire (FinPilotClient_init Map.empty (default_settings\<lparr>upload_timeout := 0\<rparr>))
          (default_settings\<lparr>upload_timeout := 0\<rparr>) (AnalyzePortfolio None None)
          (always (Raised ConnectError ''refused''))) = 30"
proof -
  let ?st = "default_settings\<lparr>upload_timeout := 0\<rparr>"
  have h: "is_upload (AnalyzePortfolio None None) \<and> upload_timeout ?st = 0" by simp
  have r: "request_timeout ?st = 30" by (simp add: default_settings_def)
  show ?thesis
    using h r zero_timeout_falls_back [where call = "AnalyzePortfolio None None" and st = ?st
        and env = Map.empty and s = ?st and net = "always (Raised ConnectError ''refused'')"
        and self = "FinPilotClient_init Map.empty ?st" and m = "''POST''"
        and e = "''/v1/portfolio/analyze''" and b = None]
    by simp
qed

end
